theory Spec2Isabelle
  imports Complex_Main "HOL-Library.Word"
begin

section \<open>The trim session of App.tsx\<close>

text \<open>
  \<^verbatim>\<open>src/src/App.tsx\<close> holds one React component, \<^verbatim>\<open>App\<close>, in two listings: lines 1-454
  and lines 455-990. The handlers of the two listings are the same statement for statement;
  the listings differ in the base location of the engine's runtime (line 49 and line 503)
  and in markup. The component's state is eight \<^verbatim>\<open>useState\<close> cells and three refs.

  A JavaScript number is a binary64 value. The finite ones are modelled as \<^typ>\<open>real\<close>, and
  every arithmetic operation of the handlers rounds its exact result to the nearest binary64
  value, ties to even. Comparisons are exact. \<^verbatim>\<open>NaN\<close>, the infinities (a result beyond the
  largest binary64 value) and the sign of zero are outside this model.
\<close>

subsection \<open>Numbers\<close>

text \<open>Rounding to the nearest integer, a tie going to the even one.\<close>

definition round_even :: "real \<Rightarrow> int" where
  "round_even x =
     (let f = \<lfloor>x\<rfloor>; d = x - of_int f
      in if d < 1 / 2 then f else if 1 / 2 < d then f + 1 else if even f then f else f + 1)"

text \<open>
  The exponent of the unit in the last place of a non-zero \<open>x\<close>: 52 binary places below
  the leading bit, and never below the subnormal spacing \<open>2 powr -1074\<close>.
\<close>

definition expo :: "real \<Rightarrow> int" where
  "expo x = max (\<lfloor>log 2 \<bar>x\<bar>\<rfloor> - 52) (- 1074)"

text \<open>The binary64 value nearest to \<open>x\<close>.\<close>

definition round64 :: "real \<Rightarrow> real" where
  "round64 x =
     (if x = 0 then 0
      else of_int (round_even (x / 2 powr of_int (expo x))) * 2 powr of_int (expo x))"

text \<open>The operators \<^verbatim>\<open>+\<close>, \<^verbatim>\<open>-\<close>, \<^verbatim>\<open>*\<close> and \<^verbatim>\<open>/\<close> on numbers.\<close>

definition js_add :: "real \<Rightarrow> real \<Rightarrow> real" where
  "js_add x y = round64 (x + y)"

definition js_sub :: "real \<Rightarrow> real \<Rightarrow> real" where
  "js_sub x y = round64 (x - y)"

definition js_mul :: "real \<Rightarrow> real \<Rightarrow> real" where
  "js_mul x y = round64 (x * y)"

definition js_div :: "real \<Rightarrow> real \<Rightarrow> real" where
  "js_div x y = round64 (x / y)"

subsection \<open>Data\<close>

type_synonym bytes = "8 word list"

text \<open>A \<^verbatim>\<open>File\<close>: its \<^verbatim>\<open>name\<close>, its declared \<^verbatim>\<open>type\<close> and its content.\<close>

record jsfile =
  file_name :: string
  file_type :: string
  file_content :: bytes

text \<open>The eight state cells, lines 7-14.\<close>

record session =
  currentFile :: "jsfile option"
  currentUrl :: "string option"
  videoDuration :: real
  startTime :: real
  endTime :: real
  loading :: bool
  showTrimControls :: bool
  showActions :: bool

text \<open>
  The refs, lines 16-18. \<open>ffmpegRef\<close> says whether an engine handle is cached.
  \<open>videoRef\<close> is the mounted video element, given by its \<^verbatim>\<open>duration\<close>, or \<open>None\<close>
  when no element is mounted. \<open>fileInputRef\<close> says whether the file input is mounted.
\<close>

record refs =
  ffmpegRef :: bool
  videoRef :: "real option"
  fileInputRef :: bool

text \<open>The initial values of the state cells, lines 7-14.\<close>

definition initial_session :: session where
  "initial_session =
     \<lparr> currentFile = None, currentUrl = None, videoDuration = 0, startTime = 0,
       endTime = 100, loading = False, showTrimControls = False, showActions = False \<rparr>"

text \<open>What a value thrown in JavaScript is: an \<^verbatim>\<open>Error\<close> with its message, or any other
  value, kept as its \<^verbatim>\<open>String(...)\<close> rendering.\<close>

datatype thrown = JsError string | NonError string

text \<open>\<^verbatim>\<open>error instanceof Error ? error.message : String(error)\<close>, lines 253 and 328.\<close>

fun errorMessage :: "thrown \<Rightarrow> string" where
  "errorMessage (JsError m) = m"
| "errorMessage (NonError v) = v"

text \<open>An argument of the engine's command line: a literal, or a number's \<^verbatim>\<open>toString()\<close>.\<close>

datatype arg = Lit string | NumToString real

text \<open>What a \<^verbatim>\<open>setTimeout\<close> callback of the handlers does when it fires.\<close>

datatype deferred =
    RemoveAnchor
  | RevokeArtifact string
  | RemoveAnchorAndRevoke string

text \<open>
  The calls a handler makes on its collaborators (engine, host, preview surface), in the
  order it makes them. \<^verbatim>\<open>console.log\<close> and \<^verbatim>\<open>console.error\<close> write to the developer
  console only and are left out. \<open>AppendAnchor href name\<close> stands for creating a hidden
  anchor with that \<^verbatim>\<open>href\<close> and \<^verbatim>\<open>download\<close> name and appending it to the document;
  \<open>Confirm\<close> is the \<^verbatim>\<open>confirm\<close> dialog of line 242, whose text is fixed;
  \<open>SetTimeout d ms\<close> schedules \<open>d\<close> after \<open>ms\<close> milliseconds.
\<close>

datatype effect =
    SetLoading bool
  | EngineNew
  | EngineOn string
  | ToBlobURL string string
  | EngineLoad string string
  | FetchFile jsfile
  | EngineWriteFile string bytes
  | EngineExec "arg list"
  | EngineListDir string
  | EngineReadFile string
  | CreateObjectURL bytes
  | RevokeObjectURL string
  | AppendAnchor string string
  | AnchorClick
  | DispatchClick
  | SetTimeout deferred nat
  | Confirm
  | WindowOpen string string
  | NavigatorShare jsfile
  | Alert string
  | VideoSeek real
  | ClearFileInput

text \<open>Truthiness of \<^verbatim>\<open>currentUrl\<close> (\<^verbatim>\<open>string | null\<close>): null and the empty string
  are falsy.\<close>

fun truthy :: "string option \<Rightarrow> bool" where
  "truthy None = False"
| "truthy (Some u) = (u \<noteq> [])"

subsection \<open>The synchronous handlers\<close>

text \<open>\<^verbatim>\<open>file.type.startsWith('video/')\<close>, line 70.\<close>

definition startsWith :: "string \<Rightarrow> string \<Rightarrow> bool" where
  "startsWith s p = (take (length p) s = p)"

text \<open>
  \<^verbatim>\<open>handleFileChange\<close>, lines 67-83. \<open>picked\<close> is \<^verbatim>\<open>event.target.files?.[0]\<close>;
  \<open>url\<close> is what \<^verbatim>\<open>URL.createObjectURL(file)\<close> returns.
\<close>

definition handleFileChange :: "jsfile option \<Rightarrow> string \<Rightarrow> session \<Rightarrow> effect list \<times> session" where
  "handleFileChange picked url s =
     (case picked of
        None \<Rightarrow> ([Alert ''Please select a valid video file''], s)
      | Some f \<Rightarrow>
          if startsWith (file_type f) ''video/''
          then ((if truthy (currentUrl s) then [RevokeObjectURL (the (currentUrl s))] else [])
                  @ [CreateObjectURL (file_content f)],
                s\<lparr> currentFile := Some f, currentUrl := Some url, showActions := True \<rparr>)
          else ([Alert ''Please select a valid video file''], s))"

text \<open>\<^verbatim>\<open>handleLoadedMetadata\<close>, lines 86-92.\<close>

definition handleLoadedMetadata :: "refs \<Rightarrow> session \<Rightarrow> session" where
  "handleLoadedMetadata r s =
     (case videoRef r of
        None \<Rightarrow> s
      | Some d \<Rightarrow> s\<lparr> videoDuration := d, showTrimControls := True, endTime := 100 \<rparr>)"

text \<open>The preview seek of both setters, lines 102-105 and 116-119.\<close>

definition seek :: "refs \<Rightarrow> real \<Rightarrow> session \<Rightarrow> effect list" where
  "seek r v s =
     (case videoRef r of
        None \<Rightarrow> []
      | Some _ \<Rightarrow> [VideoSeek (js_mul (js_div v 100) (videoDuration s))])"

text \<open>\<^verbatim>\<open>handleStartTimeChange\<close>, lines 95-106.\<close>

definition handleStartTimeChange :: "refs \<Rightarrow> real \<Rightarrow> session \<Rightarrow> effect list \<times> session" where
  "handleStartTimeChange r v s =
     (seek r v s,
      if v \<ge> endTime s then s\<lparr> startTime := js_sub (endTime s) 1 \<rparr>
      else s\<lparr> startTime := v \<rparr>)"

text \<open>\<^verbatim>\<open>handleEndTimeChange\<close>, lines 109-120.\<close>

definition handleEndTimeChange :: "refs \<Rightarrow> real \<Rightarrow> session \<Rightarrow> effect list \<times> session" where
  "handleEndTimeChange r v s =
     (seek r v s,
      if v \<le> startTime s then s\<lparr> endTime := js_add (startTime s) 1 \<rparr>
      else s\<lparr> endTime := v \<rparr>)"

text \<open>\<^verbatim>\<open>handleClear\<close>, lines 336-352.\<close>

definition handleClear :: "refs \<Rightarrow> session \<Rightarrow> effect list \<times> session" where
  "handleClear r s =
     ((if truthy (currentUrl s) then [RevokeObjectURL (the (currentUrl s))] else [])
        @ (if fileInputRef r then [ClearFileInput] else []),
      s\<lparr> currentFile := None, currentUrl := None, videoDuration := 0, startTime := 0,
         endTime := 100, showActions := False, showTrimControls := False \<rparr>)"

text \<open>A call of one of the two setters, and a sequence of such calls run from a state.\<close>

datatype setter = SetStart real | SetEnd real

fun call_setter :: "refs \<Rightarrow> session \<Rightarrow> setter \<Rightarrow> session" where
  "call_setter r s (SetStart v) = snd (handleStartTimeChange r v s)"
| "call_setter r s (SetEnd v) = snd (handleEndTimeChange r v s)"

definition call_setters :: "refs \<Rightarrow> setter list \<Rightarrow> session \<Rightarrow> session" where
  "call_setters r cs s = foldl (call_setter r) s cs"

text \<open>The invariant of the trim bounds, as the data model states it.\<close>

definition bounds_ok :: "session \<Rightarrow> bool" where
  "bounds_ok s = (0 \<le> startTime s \<and> startTime s < endTime s \<and> endTime s \<le> 100)"

text \<open>The input of a setter call.\<close>

fun setter_input :: "setter \<Rightarrow> real" where
  "setter_input (SetStart v) = v"
| "setter_input (SetEnd v) = v"

text \<open>
  The bounds stay in the range where binary64 values are at most 1 apart: what calls with
  inputs of magnitude at most \<open>2 ^ 52\<close> keep, the coerced bound lying up to one and a half
  beyond an input.
\<close>

definition in_unit_range :: "session \<Rightarrow> bool" where
  "in_unit_range s =
     (- (2 ^ 52) - 3 / 2 \<le> startTime s \<and> startTime s \<le> 2 ^ 52
      \<and> - (2 ^ 52) \<le> endTime s \<and> endTime s \<le> 2 ^ 52 + 3 / 2)"

subsection \<open>Asynchronous calls\<close>

text \<open>
  What an awaited promise does: it resolves with a value, it rejects with a thrown value, or
  it never settles (the handlers set no timeout). A synchronous call returns or throws.
\<close>

datatype 'a outcome = Resolves 'a | Rejects thrown | Pending

datatype 'a call = Returns 'a | Throws thrown

text \<open>
  The collaborators' answers during one run of a handler. Every call site of a handler is
  run at most once, so one answer per call site describes a run.
\<close>

record env =
  toBlobURL_core :: "string outcome"
  toBlobURL_wasm :: "string outcome"
  ffmpeg_load :: "unit outcome"
  fetchFile :: "bytes outcome"
  ffmpeg_writeFile :: "unit outcome"
  ffmpeg_exec :: "int outcome"
  ffmpeg_listDir :: "unit outcome"
  ffmpeg_readFile :: "bytes outcome"
  createObjectURL :: string
  anchor_click :: "unit call"
  dispatchEvent :: "unit call"
  confirm_answer :: bool
  navigator_share :: bool
  navigator_canShare :: "bool call"
  share_result :: "unit outcome"

text \<open>
  A piece of an \<^verbatim>\<open>async\<close> function body: the calls it has made, and how it ended: it ran
  to its end with a value, it threw, or it is suspended at an \<^verbatim>\<open>await\<close> that has not
  settled.
\<close>

datatype 'a ending = Done 'a | Raised thrown | Suspended

type_synonym 'a comp = "effect list \<times> 'a ending"

definition then_do :: "'a comp \<Rightarrow> ('a \<Rightarrow> 'b comp) \<Rightarrow> 'b comp" where
  "then_do m f =
     (case m of
        (es, Done a) \<Rightarrow> (case f a of (es', e) \<Rightarrow> (es @ es', e))
      | (es, Raised t) \<Rightarrow> (es, Raised t)
      | (es, Suspended) \<Rightarrow> (es, Suspended))"

definition skip :: "unit comp" where
  "skip = ([], Done ())"

definition perform :: "effect \<Rightarrow> unit comp" where
  "perform e = ([e], Done ())"

definition throw :: "thrown \<Rightarrow> 'a comp" where
  "throw t = ([], Raised t)"

definition await :: "effect \<Rightarrow> 'a outcome \<Rightarrow> 'a comp" where
  "await e out =
     ([e], case out of Resolves v \<Rightarrow> Done v | Rejects t \<Rightarrow> Raised t | Pending \<Rightarrow> Suspended)"

definition invoke :: "effect \<Rightarrow> 'a call \<Rightarrow> 'a comp" where
  "invoke e c = ([e], case c of Returns v \<Rightarrow> Done v | Throws t \<Rightarrow> Raised t)"

text \<open>A number in a template literal: the decimal digits of an integer.\<close>

fun digits :: "nat \<Rightarrow> string" where
  "digits n =
     (if n < 10 then [''0123456789'' ! n]
      else digits (n div 10) @ [''0123456789'' ! (n mod 10)])"

definition show_int :: "int \<Rightarrow> string" where
  "show_int i = (if i < 0 then ''-'' @ digits (nat (- i)) else digits (nat i))"

subsection \<open>The engine adapter\<close>

text \<open>The two listings of the file.\<close>

datatype listing = Listing1 | Listing2

text \<open>\<^verbatim>\<open>baseURL\<close>: line 49 in the first listing, line 503 in the second.\<close>

fun baseURL :: "listing \<Rightarrow> string" where
  "baseURL Listing1 = ''https://cdn.jsdelivr.net/npm/@ffmpeg/core@0.12.6/dist/esm''"
| "baseURL Listing2 = ''/ffmpeg''"

text \<open>
  \<^verbatim>\<open>loadFFmpeg\<close>, lines 33-64 and 487-518. The \<^verbatim>\<open>catch\<close> of lines 57-60 logs and
  rethrows. The ref is assigned (line 62) only when the \<^verbatim>\<open>try\<close> block has run to its end.
\<close>

definition loadFFmpeg :: "listing \<Rightarrow> env \<Rightarrow> refs \<Rightarrow> refs \<times> unit comp" where
  "loadFFmpeg L env r =
     (if ffmpegRef r then (r, skip)
      else
        let c =
          then_do (perform EngineNew) (\<lambda>_.
          then_do (perform (EngineOn ''log'')) (\<lambda>_.
          then_do (perform (EngineOn ''progress'')) (\<lambda>_.
          then_do (await (ToBlobURL (baseURL L @ ''/ffmpeg-core.js'') ''text/javascript'')
                     (toBlobURL_core env)) (\<lambda>coreURL.
          then_do (await (ToBlobURL (baseURL L @ ''/ffmpeg-core.wasm'') ''application/wasm'')
                     (toBlobURL_wasm env)) (\<lambda>wasmURL.
          await (EngineLoad coreURL wasmURL) (ffmpeg_load env))))))
        in (if snd c = Done () then r\<lparr> ffmpegRef := True \<rparr> else r, c))"

subsection \<open>Trim and deliver\<close>

text \<open>The derived time values, lines 28-30.\<close>

definition startTimeInSeconds :: "session \<Rightarrow> real" where
  "startTimeInSeconds s = js_mul (js_div (startTime s) 100) (videoDuration s)"

definition endTimeInSeconds :: "session \<Rightarrow> real" where
  "endTimeInSeconds s = js_mul (js_div (endTime s) 100) (videoDuration s)"

definition duration :: "session \<Rightarrow> real" where
  "duration s = js_sub (endTimeInSeconds s) (startTimeInSeconds s)"

text \<open>The argument vector of \<^verbatim>\<open>ffmpeg.exec\<close>, lines 154-161 and 283-290.\<close>

definition exec_args :: "session \<Rightarrow> arg list" where
  "exec_args s =
     [Lit ''-ss'', NumToString (startTimeInSeconds s), Lit ''-i'', Lit ''input.mp4'',
      Lit ''-t'', NumToString (duration s), Lit ''-c'', Lit ''copy'',
      Lit ''-avoid_negative_ts'', Lit ''make_zero'', Lit ''output.mp4'']"

text \<open>How a run of a handler stands when control returns to the event loop for good.\<close>

datatype status = Settled | InFlight

record run =
  effects :: "effect list"
  session_after :: session
  refs_after :: refs
  status :: status

text \<open>
  \<^verbatim>\<open>setLoading(true); try { body } catch (error) { alert(prefix + message) }
  finally { setLoading(false) }\<close>, lines 134-257 and 276-332. A body suspended at an
  \<^verbatim>\<open>await\<close> that never settles reaches neither \<^verbatim>\<open>catch\<close> nor \<^verbatim>\<open>finally\<close>.
\<close>

definition try_catch_finally :: "string \<Rightarrow> session \<Rightarrow> refs \<Rightarrow> unit comp \<Rightarrow> run" where
  "try_catch_finally prefix s r body =
     (case body of
        (es, Done _) \<Rightarrow>
          \<lparr> effects = [SetLoading True] @ es @ [SetLoading False],
            session_after = s\<lparr> loading := False \<rparr>, refs_after = r, status = Settled \<rparr>
      | (es, Raised t) \<Rightarrow>
          \<lparr> effects = [SetLoading True] @ es @ [Alert (prefix @ errorMessage t), SetLoading False],
            session_after = s\<lparr> loading := False \<rparr>, refs_after = r, status = Settled \<rparr>
      | (es, Suspended) \<Rightarrow>
          \<lparr> effects = [SetLoading True] @ es,
            session_after = s\<lparr> loading := True \<rparr>, refs_after = r, status = InFlight \<rparr>)"

text \<open>Lines 213-228: \<^verbatim>\<open>a.click()\<close>, and \<^verbatim>\<open>a.dispatchEvent\<close> when the click throws.\<close>

definition click_or_dispatch :: "env \<Rightarrow> unit comp" where
  "click_or_dispatch env =
     (case anchor_click env of
        Returns _ \<Rightarrow> perform AnchorClick
      | Throws _ \<Rightarrow> then_do (perform AnchorClick) (\<lambda>_. invoke DispatchClick (dispatchEvent env)))"

text \<open>
  The \<^verbatim>\<open>try\<close> block of \<^verbatim>\<open>handleTrim\<close>, lines 136-250, after \<^verbatim>\<open>loadFFmpeg\<close>.
  \<^verbatim>\<open>readFile\<close> returns a byte array, which is truthy, so \<^verbatim>\<open>!data || data.length === 0\<close>
  is \<open>data = []\<close>; \<^verbatim>\<open>blob.size\<close> is the length of the bytes.
\<close>

definition trim_steps :: "env \<Rightarrow> session \<Rightarrow> jsfile \<Rightarrow> unit comp" where
  "trim_steps env s f =
     then_do (await (FetchFile f) (fetchFile env)) (\<lambda>input.
     then_do (await (EngineWriteFile ''input.mp4'' input) (ffmpeg_writeFile env)) (\<lambda>_.
     then_do (await (EngineExec (exec_args s)) (ffmpeg_exec env)) (\<lambda>exitCode.
     then_do (if exitCode \<noteq> 0
              then throw (JsError (''FFmpeg failed with exit code '' @ show_int exitCode))
              else skip) (\<lambda>_.
     then_do (await (EngineListDir ''/'') (ffmpeg_listDir env)) (\<lambda>_.
     then_do (await (EngineReadFile ''output.mp4'') (ffmpeg_readFile env)) (\<lambda>data.
     then_do (if data = [] then throw (JsError ''Output file is empty'') else skip) (\<lambda>_.
     then_do (if length data = 0 then throw (JsError ''Created blob is empty'') else skip) (\<lambda>_.
     then_do (perform (CreateObjectURL data)) (\<lambda>_.
     then_do (perform (AppendAnchor (createObjectURL env) (''trimmed-'' @ file_name f))) (\<lambda>_.
     then_do (click_or_dispatch env) (\<lambda>_.
     then_do (perform (SetTimeout RemoveAnchor 5000)) (\<lambda>_.
     then_do (perform Confirm) (\<lambda>_.
     then_do (if confirm_answer env
              then perform (WindowOpen (createObjectURL env) ''_blank'') else skip) (\<lambda>_.
     perform (SetTimeout (RevokeArtifact (createObjectURL env)) 30000)))))))))))))))"

text \<open>\<^verbatim>\<open>handleTrim\<close>, lines 131-258.\<close>

definition handleTrim :: "listing \<Rightarrow> env \<Rightarrow> refs \<Rightarrow> session \<Rightarrow> run" where
  "handleTrim L env r s =
     (case currentFile s of
        None \<Rightarrow> \<lparr> effects = [], session_after = s, refs_after = r, status = Settled \<rparr>
      | Some f \<Rightarrow>
          (case loadFFmpeg L env r of
             (r', loaded) \<Rightarrow>
               try_catch_finally ''Error trimming video: '' s r'
                 (then_do loaded (\<lambda>_. trim_steps env s f))))"

text \<open>
  Lines 304-325 of \<^verbatim>\<open>handleShare\<close>: the native share, or the save when
  \<^verbatim>\<open>navigator.share && navigator.canShare({ files: [file] })\<close> is falsy. \<^verbatim>\<open>&&\<close> calls
  \<^verbatim>\<open>canShare\<close> only when \<^verbatim>\<open>navigator.share\<close> is there.
\<close>

definition share_or_save :: "env \<Rightarrow> jsfile \<Rightarrow> bytes \<Rightarrow> unit comp" where
  "share_or_save env f data =
     (let shared = \<lparr> file_name = ''trimmed-'' @ file_name f, file_type = ''video/mp4'',
                      file_content = data \<rparr>
      in then_do (if navigator_share env
                  then (case navigator_canShare env of
                          Returns b \<Rightarrow> ([], Done b) | Throws t \<Rightarrow> throw t)
                  else ([], Done False)) (\<lambda>can.
         if can then await (NavigatorShare shared) (share_result env)
         else
           then_do (perform (Alert ''Share not supported. Video will download instead.'')) (\<lambda>_.
           then_do (perform (CreateObjectURL data)) (\<lambda>_.
           then_do (perform (AppendAnchor (createObjectURL env) (file_name shared))) (\<lambda>_.
           then_do (invoke AnchorClick (anchor_click env)) (\<lambda>_.
           perform (SetTimeout (RemoveAnchorAndRevoke (createObjectURL env)) 100)))))))"

text \<open>
  The \<^verbatim>\<open>try\<close> block of \<^verbatim>\<open>handleShare\<close>, lines 278-325, after \<^verbatim>\<open>loadFFmpeg\<close>. The value
  of \<^verbatim>\<open>ffmpeg.exec\<close> is awaited and dropped (line 283).
\<close>

definition share_steps :: "env \<Rightarrow> session \<Rightarrow> jsfile \<Rightarrow> unit comp" where
  "share_steps env s f =
     then_do (await (FetchFile f) (fetchFile env)) (\<lambda>input.
     then_do (await (EngineWriteFile ''input.mp4'' input) (ffmpeg_writeFile env)) (\<lambda>_.
     then_do (await (EngineExec (exec_args s)) (ffmpeg_exec env)) (\<lambda>_.
     then_do (await (EngineReadFile ''output.mp4'') (ffmpeg_readFile env)) (\<lambda>data.
     then_do (if data = [] then throw (JsError ''Output file is empty'') else skip) (\<lambda>_.
     then_do (if length data = 0 then throw (JsError ''Created blob is empty'') else skip) (\<lambda>_.
     share_or_save env f data))))))"

text \<open>\<^verbatim>\<open>handleShare\<close>, lines 273-333.\<close>

definition handleShare :: "listing \<Rightarrow> env \<Rightarrow> refs \<Rightarrow> session \<Rightarrow> run" where
  "handleShare L env r s =
     (case currentFile s of
        None \<Rightarrow> \<lparr> effects = [], session_after = s, refs_after = r, status = Settled \<rparr>
      | Some f \<Rightarrow>
          (case loadFFmpeg L env r of
             (r', loaded) \<Rightarrow>
               try_catch_finally ''Error: '' s r'
                 (then_do loaded (\<lambda>_. share_steps env s f))))"

subsection \<open>Predicates and sample inputs\<close>

text \<open>A piece of a body is suspended.\<close>

definition suspends :: "'a comp \<Rightarrow> bool" where
  "suspends c = (snd c = Suspended)"

text \<open>Every promise the handlers await settles.\<close>

definition responsive :: "env \<Rightarrow> bool" where
  "responsive env =
     (toBlobURL_core env \<noteq> Pending \<and> toBlobURL_wasm env \<noteq> Pending \<and> ffmpeg_load env \<noteq> Pending
      \<and> fetchFile env \<noteq> Pending \<and> ffmpeg_writeFile env \<noteq> Pending \<and> ffmpeg_exec env \<noteq> Pending
      \<and> ffmpeg_listDir env \<noteq> Pending \<and> ffmpeg_readFile env \<noteq> Pending
      \<and> share_result env \<noteq> Pending)"

text \<open>The calls made on the engine.\<close>

definition is_engine_call :: "effect \<Rightarrow> bool" where
  "is_engine_call e =
     (case e of
        EngineNew \<Rightarrow> True | EngineOn _ \<Rightarrow> True | EngineLoad _ _ \<Rightarrow> True
      | EngineWriteFile _ _ \<Rightarrow> True | EngineExec _ \<Rightarrow> True | EngineListDir _ \<Rightarrow> True
      | EngineReadFile _ \<Rightarrow> True | _ \<Rightarrow> False)"

text \<open>A video file, two sessions that hold it, and the refs of a mounted page.\<close>

definition clip :: jsfile where
  "clip = \<lparr> file_name = ''clip.mp4'', file_type = ''video/mp4'', file_content = [1, 2, 3] \<rparr>"

definition editing :: session where
  "editing =
     \<lparr> currentFile = Some clip, currentUrl = Some ''blob:preview'', videoDuration = 120,
       startTime = 25, endTime = 75, loading = False, showTrimControls = True,
       showActions = True \<rparr>"

definition trimmed :: session where
  "trimmed = initial_session\<lparr> currentFile := Some clip, currentUrl := Some ''blob:old'',
     videoDuration := 90, startTime := 30, endTime := 60, showTrimControls := True,
     showActions := True \<rparr>"

definition mounted :: refs where
  "mounted = \<lparr> ffmpegRef = False, videoRef = Some 120, fileInputRef = True \<rparr>"

text \<open>
  Collaborators: one where every call succeeds, and variants where the engine's command never
  returns, exits with 1, where the runtime fails to load, where the host cannot share files,
  and where the share is rejected.
\<close>

definition all_fine :: env where
  "all_fine =
     \<lparr> toBlobURL_core = Resolves ''blob:core'', toBlobURL_wasm = Resolves ''blob:wasm'',
       ffmpeg_load = Resolves (), fetchFile = Resolves [1, 2, 3],
       ffmpeg_writeFile = Resolves (), ffmpeg_exec = Resolves 0,
       ffmpeg_listDir = Resolves (), ffmpeg_readFile = Resolves [7, 8],
       createObjectURL = ''blob:artifact'', anchor_click = Returns (),
       dispatchEvent = Returns (), confirm_answer = False, navigator_share = True,
       navigator_canShare = Returns True, share_result = Resolves () \<rparr>"

definition exec_hangs :: env where
  "exec_hangs = all_fine\<lparr> ffmpeg_exec := Pending \<rparr>"

definition exec_fails :: env where
  "exec_fails = all_fine\<lparr> ffmpeg_exec := Resolves 1 \<rparr>"

definition load_fails :: env where
  "load_fails = all_fine\<lparr> ffmpeg_load := Rejects (JsError ''failed to import ffmpeg-core.js'') \<rparr>"

definition unsupported :: env where
  "unsupported = all_fine\<lparr> navigator_share := False \<rparr>"

definition share_rejected :: env where
  "share_rejected = all_fine\<lparr> share_result := Rejects (JsError ''Share canceled'') \<rparr>"

section \<open>Lemmas\<close>

lemmas run_defs = handleTrim_def handleShare_def loadFFmpeg_def trim_steps_def share_steps_def
  share_or_save_def click_or_dispatch_def try_catch_finally_def then_do_def await_def
  perform_def invoke_def throw_def skip_def exec_args_def startTimeInSeconds_def
  endTimeInSeconds_def duration_def js_mul_def js_div_def js_sub_def

lemmas sample_defs = clip_def editing_def trimmed_def mounted_def all_fine_def exec_hangs_def
  exec_fails_def load_fails_def unsupported_def share_rejected_def

subsection \<open>Rounding\<close>

lemma round_even_err: "\<bar>of_int (round_even x) - x\<bar> \<le> 1 / 2"
  unfolding round_even_def Let_def by (auto simp: abs_if) linarith+

lemma round_even_int [simp]: "round_even (of_int n) = n"
  by (simp add: round_even_def)

lemma round_even_nonneg: "0 \<le> x \<Longrightarrow> 0 \<le> round_even x"
  unfolding round_even_def Let_def by (auto simp: zero_le_floor) 

lemma round_even_le: "x \<le> of_int n \<Longrightarrow> round_even x \<le> n"
  unfolding round_even_def Let_def
  by (auto simp: floor_le_iff le_floor_iff)

lemma expo_le0: "x \<noteq> 0 \<Longrightarrow> \<bar>x\<bar> < 2 ^ 53 \<Longrightarrow> expo x \<le> 0"
proof -
  assume x: "x \<noteq> 0" and b: "\<bar>x\<bar> < 2 ^ 53"
  have "\<bar>x\<bar> < 2 powr 53" using b by simp
  then have "log 2 \<bar>x\<bar> < 53" using x by (simp add: log_less_iff del: powr_numeral)
  then have "\<lfloor>log 2 \<bar>x\<bar>\<rfloor> < 53" by (simp add: floor_less_iff)
  then show ?thesis by (simp add: expo_def)
qed

lemma round64_err:
  assumes "\<bar>x\<bar> < 2 ^ 53"
  shows "\<bar>round64 x - x\<bar> \<le> 1 / 2"
proof (cases "x = 0")
  case True then show ?thesis by (simp add: round64_def)
next
  case False
  define u :: real where "u = 2 powr of_int (expo x)"
  have u0: "0 < u" by (simp add: u_def)
  have "expo x \<le> 0" using False assms by (rule expo_le0)
  then have "(2::real) powr of_int (expo x) \<le> 2 powr 0" by (subst powr_le_cancel_iff) auto
  then have u1: "u \<le> 1" unfolding u_def by simp
  have "round64 x - x = (of_int (round_even (x / u)) - x / u) * u"
    using u0 False by (simp add: round64_def u_def field_simps)
  then have "\<bar>round64 x - x\<bar> = \<bar>of_int (round_even (x / u)) - x / u\<bar> * u"
    using u0 by (simp add: abs_mult)
  also have "\<dots> \<le> (1 / 2) * u"
    using round_even_err [of "x / u"] u0 by (intro mult_right_mono) auto
  also have "\<dots> \<le> 1 / 2" using u1 by simp
  finally show ?thesis .
qed

lemma round64_nonneg: "0 \<le> x \<Longrightarrow> 0 \<le> round64 x"
  by (auto simp: round64_def intro!: mult_nonneg_nonneg round_even_nonneg)

lemma expo_dyadic:
  assumes "m \<noteq> 0" and "\<bar>m\<bar> < 2 ^ 53" and "k \<le> 1074"
  shows "expo (of_int m / 2 ^ k) \<le> - int k"
proof -
  let ?x = "of_int m / 2 ^ k :: real"
  have x0: "?x \<noteq> 0" using assms(1) by simp
  have "\<bar>?x\<bar> = \<bar>of_int m\<bar> / 2 ^ k" by (simp add: abs_divide)
  also have "\<dots> < 2 ^ 53 / 2 ^ k"
    using assms(2) by (intro divide_strict_right_mono) (auto simp: abs_if split: if_splits)
  also have "\<dots> = 2 powr (53 - real k)"
    by (simp add: powr_diff powr_realpow)
  finally have "log 2 \<bar>?x\<bar> < 53 - real k"
    using x0 by (subst log_less_iff) auto
  then have "\<lfloor>log 2 \<bar>?x\<bar>\<rfloor> < 53 - int k"
    by (simp add: floor_less_iff)
  then show ?thesis using assms(3) by (simp add: expo_def)
qed

lemma round64_dyadic:
  assumes "\<bar>m\<bar> < 2 ^ 53" and "k \<le> 1074"
  shows "round64 (of_int m / 2 ^ k) = of_int m / 2 ^ k"
proof (cases "m = 0")
  case True then show ?thesis by (simp add: round64_def)
next
  case False
  let ?x = "of_int m / 2 ^ k :: real"
  define j where "j = nat (- int k - expo ?x)"
  have e: "expo ?x = - int (k + j)"
    using expo_dyadic [OF False assms] by (simp add: j_def)
  have p: "(2::real) powr of_int (expo ?x) = 1 / 2 ^ (k + j)"
    unfolding e by (simp add: powr_minus powr_realpow field_simps del: of_nat_add)
  have q: "?x / (2 powr of_int (expo ?x)) = of_int (m * 2 ^ j)"
    unfolding p by (simp add: power_add)
  have x0: "?x \<noteq> 0" using False by simp
  have r: "round_even (?x / (2 powr of_int (expo ?x))) = m * 2 ^ j"
    by (simp only: q round_even_int)
  have "round64 ?x = of_int (m * 2 ^ j) * (1 / 2 ^ (k + j))"
    by (simp only: round64_def x0 if_False r) (simp only: p)
  then show ?thesis by (simp add: power_add)
qed

lemma round64_int: "\<bar>n\<bar> < 2 ^ 53 \<Longrightarrow> round64 (of_int n) = of_int n"
  using round64_dyadic [of n 0] by simp

lemma round64_le_int:
  assumes "\<bar>x\<bar> < 2 ^ 53" and "x \<le> of_int n"
  shows "round64 x \<le> of_int n"
proof (cases "x = 0")
  case True with assms show ?thesis by (simp add: round64_def)
next
  case False
  define j where "j = nat (- expo x)"
  have "expo x \<le> 0" using False assms(1) by (rule expo_le0)
  then have e: "expo x = - int j" by (simp add: j_def)
  have p: "(2::real) powr of_int (expo x) = 1 / 2 ^ j"
    unfolding e by (simp add: powr_minus powr_realpow field_simps)
  have "x / (2 powr of_int (expo x)) = x * 2 ^ j" unfolding p by simp
  also have "\<dots> \<le> of_int n * 2 ^ j" using assms(2) by (intro mult_right_mono) auto
  also have "\<dots> = of_int (n * 2 ^ j)" by simp
  finally have "round_even (x / (2 powr of_int (expo x))) \<le> n * 2 ^ j"
    by (rule round_even_le)
  then have "(of_int (round_even (x / (2 powr of_int (expo x)))) :: real) \<le> of_int (n * 2 ^ j)"
    by (simp only: of_int_le_iff)
  then have "of_int (round_even (x / (2 powr of_int (expo x)))) * (1 / 2 ^ j) \<le> of_int (n * 2 ^ j) * (1 / 2 ^ j :: real)"
    by (intro mult_right_mono) auto
  then show ?thesis using False by (simp add: round64_def p)
qed





lemma round64_samples [simp]:
  "round64 (1 / 4) = 1 / 4" "round64 (3 / 4) = 3 / 4" "round64 1 = 1" "round64 30 = 30"
  "round64 60 = 60" "round64 90 = 90" "round64 99 = 99" "round64 100 = 100"
  using round64_dyadic [of 1 2] round64_dyadic [of 3 2] round64_int [of 1] round64_int [of 30]
    round64_int [of 60] round64_int [of 90] round64_int [of 99] round64_int [of 100]
  by simp_all

lemma round64_near:
  assumes "\<bar>x\<bar> < 2 ^ 53"
  shows "x - 1 / 2 \<le> round64 x" and "round64 x \<le> x + 1 / 2"
proof -
  note e = round64_err [OF assms]
  from abs_le_D1 [OF e] show "round64 x \<le> x + 1 / 2" by linarith
  from abs_le_D2 [OF e] show "x - 1 / 2 \<le> round64 x" by linarith
qed

lemma js_sub_1:
  assumes "\<bar>x - 1\<bar> < 2 ^ 53"
  shows "js_sub x 1 < x" and "x - 3 / 2 \<le> js_sub x 1" and "js_sub x 1 \<le> x - 1 / 2"
  using round64_near [OF assms] unfolding js_sub_def by linarith+

lemma js_add_1:
  assumes "\<bar>x + 1\<bar> < 2 ^ 53"
  shows "x < js_add x 1" and "x + 1 / 2 \<le> js_add x 1" and "js_add x 1 \<le> x + 3 / 2"
  using round64_near [OF assms] unfolding js_add_def by linarith+

subsection \<open>The setters\<close>

lemma in_unit_range_start:
  assumes "in_unit_range s" and "\<bar>v\<bar> \<le> 2 ^ 52"
  shows "in_unit_range (snd (handleStartTimeChange r v s))"
    and "startTime (snd (handleStartTimeChange r v s)) < endTime (snd (handleStartTimeChange r v s))"
proof -
  show "in_unit_range (snd (handleStartTimeChange r v s))"
  proof (cases "v \<ge> endTime s")
    case True
    with assms have "\<bar>endTime s - 1\<bar> < 2 ^ 53" by (simp add: in_unit_range_def) linarith
    from js_sub_1 [OF this] True assms show ?thesis
      unfolding handleStartTimeChange_def in_unit_range_def by auto
  next
    case False
    with assms show ?thesis
      unfolding handleStartTimeChange_def in_unit_range_def by auto
  qed
  show "startTime (snd (handleStartTimeChange r v s)) < endTime (snd (handleStartTimeChange r v s))"
  proof (cases "v \<ge> endTime s")
    case True
    with assms have "\<bar>endTime s - 1\<bar> < 2 ^ 53" by (simp add: in_unit_range_def) linarith
    from js_sub_1(1) [OF this] True show ?thesis by (simp add: handleStartTimeChange_def)
  next
    case False
    then show ?thesis by (simp add: handleStartTimeChange_def)
  qed
qed

lemma in_unit_range_end:
  assumes "in_unit_range s" and "\<bar>v\<bar> \<le> 2 ^ 52"
  shows "in_unit_range (snd (handleEndTimeChange r v s))"
    and "startTime (snd (handleEndTimeChange r v s)) < endTime (snd (handleEndTimeChange r v s))"
proof -
  show "in_unit_range (snd (handleEndTimeChange r v s))"
  proof (cases "v \<le> startTime s")
    case True
    with assms have "\<bar>startTime s + 1\<bar> < 2 ^ 53" by (simp add: in_unit_range_def) linarith
    from js_add_1 [OF this] True assms show ?thesis
      unfolding handleEndTimeChange_def in_unit_range_def by auto
  next
    case False
    with assms show ?thesis
      unfolding handleEndTimeChange_def in_unit_range_def by auto
  qed
  show "startTime (snd (handleEndTimeChange r v s)) < endTime (snd (handleEndTimeChange r v s))"
  proof (cases "v \<le> startTime s")
    case True
    with assms have "\<bar>startTime s + 1\<bar> < 2 ^ 53" by (simp add: in_unit_range_def) linarith
    from js_add_1(1) [OF this] True show ?thesis by (simp add: handleEndTimeChange_def)
  next
    case False
    then show ?thesis by (simp add: handleEndTimeChange_def)
  qed
qed

lemma call_setter_step:
  assumes "in_unit_range s" and "\<bar>setter_input c\<bar> \<le> 2 ^ 52"
  shows "in_unit_range (call_setter r s c)"
    and "startTime (call_setter r s c) < endTime (call_setter r s c)"
  using assms in_unit_range_start [of s "setter_input c" r] in_unit_range_end [of s "setter_input c" r]
  by (cases c; simp)+

lemma call_setters_snoc: "call_setters r (cs @ [c]) s = call_setter r (call_setters r cs s) c"
  by (simp add: call_setters_def)

lemma call_setters_in_unit_range:
  "in_unit_range s \<Longrightarrow> \<forall>c \<in> set cs. \<bar>setter_input c\<bar> \<le> 2 ^ 52 \<Longrightarrow>
   in_unit_range (call_setters r cs s)"
proof (induction cs rule: rev_induct)
  case Nil
  then show ?case by (simp add: call_setters_def)
next
  case (snoc c cs)
  then show ?case by (simp add: call_setters_snoc call_setter_step(1))
qed

lemma call_setters_order:
  assumes "in_unit_range s" and "\<forall>c \<in> set cs. \<bar>setter_input c\<bar> \<le> 2 ^ 52"
    and "cs \<noteq> [] \<or> startTime s < endTime s"
  shows "startTime (call_setters r cs s) < endTime (call_setters r cs s)"
proof (cases cs rule: rev_cases)
  case Nil
  with assms(3) show ?thesis by (simp add: call_setters_def)
next
  case (snoc ys y)
  with assms(2) have ys: "\<forall>c \<in> set ys. \<bar>setter_input c\<bar> \<le> 2 ^ 52"
    and y: "\<bar>setter_input y\<bar> \<le> 2 ^ 52" by simp_all
  from call_setters_in_unit_range [OF assms(1) ys]
  have "in_unit_range (call_setters r ys s)" .
  from call_setter_step(2) [OF this y] snoc show ?thesis
    by (simp only: call_setters_snoc)
qed

lemma magnitude_in_unit_range:
  "\<bar>startTime s\<bar> \<le> 2 ^ 52 \<Longrightarrow> \<bar>endTime s\<bar> \<le> 2 ^ 52 \<Longrightarrow> in_unit_range s"
  by (simp add: in_unit_range_def) linarith

lemma bounds_ok_start:
  assumes "bounds_ok s" and "0 \<le> v" and "1 \<le> endTime s"
  shows "bounds_ok (snd (handleStartTimeChange r v s))"
proof (cases "v \<ge> endTime s")
  case True
  from assms have "\<bar>endTime s - 1\<bar> < 2 ^ 53" by (simp add: bounds_ok_def)
  from js_sub_1(1) [OF this] round64_nonneg [of "endTime s - 1"] assms True show ?thesis
    by (simp add: handleStartTimeChange_def bounds_ok_def js_sub_def)
next
  case False
  with assms show ?thesis by (simp add: handleStartTimeChange_def bounds_ok_def)
qed

lemma bounds_ok_end:
  assumes "bounds_ok s" and "w \<le> 100" and "startTime s \<le> 99"
  shows "bounds_ok (snd (handleEndTimeChange r w s))"
proof (cases "w \<le> startTime s")
  case True
  from assms have b: "\<bar>startTime s + 1\<bar> < 2 ^ 53" by (simp add: bounds_ok_def)
  from assms have "startTime s + 1 \<le> of_int 100" by simp
  from round64_le_int [OF b this] js_add_1(1) [OF b] assms True show ?thesis
    by (simp add: handleEndTimeChange_def bounds_ok_def js_add_def)
next
  case False
  with assms show ?thesis by (simp add: handleEndTimeChange_def bounds_ok_def)
qed

subsection \<open>Sequencing\<close>

lemma then_do_Done: "then_do (es, Done a) f = (es @ fst (f a), snd (f a))"
  by (simp add: then_do_def split: prod.splits)

lemma then_do_Raised: "then_do (es, Raised t) f = (es, Raised t)"
  by (simp add: then_do_def)

lemma suspends_then_do:
  "suspends (then_do m f) = (suspends m \<or> (\<exists>a. snd m = Done a \<and> suspends (f a)))"
  by (cases m) (auto simp: then_do_def suspends_def split: ending.splits prod.splits)

lemma suspends_basic [simp]:
  "\<not> suspends skip" "\<not> suspends (perform e)" "\<not> suspends (throw t)"
  "suspends (await e out) = (out = Pending)" "\<not> suspends (invoke e c)"
  by (auto simp: suspends_def skip_def perform_def throw_def await_def invoke_def
      split: outcome.splits call.splits)

lemma suspends_pair [simp]:
  "\<not> suspends (es, Done a)" "\<not> suspends (es, Raised t)" "suspends (es, Suspended)"
  by (simp_all add: suspends_def)

lemma click_or_dispatch_settles [simp]: "\<not> suspends (click_or_dispatch env)"
  by (simp add: click_or_dispatch_def suspends_then_do split: call.splits)

lemma loadFFmpeg_settles: "responsive env \<Longrightarrow> \<not> suspends (snd (loadFFmpeg L env r))"
  by (simp add: loadFFmpeg_def responsive_def Let_def suspends_then_do)

lemma trim_steps_settles: "responsive env \<Longrightarrow> \<not> suspends (trim_steps env s f)"
  by (simp add: trim_steps_def responsive_def suspends_then_do)

lemma share_or_save_settles: "responsive env \<Longrightarrow> \<not> suspends (share_or_save env f data)"
  by (simp add: share_or_save_def responsive_def Let_def suspends_then_do split: call.splits)

lemma share_steps_settles: "responsive env \<Longrightarrow> \<not> suspends (share_steps env s f)"
  by (simp add: share_steps_def suspends_then_do share_or_save_settles) (simp add: responsive_def)

lemma loaded_pair:
  "snd (snd (loadFFmpeg L env r)) = Done () \<Longrightarrow>
   snd (loadFFmpeg L env r) = (fst (snd (loadFFmpeg L env r)), Done ())"
  by (metis prod.collapse)

subsection \<open>The try, catch and finally of the handlers\<close>

lemma tcf_status: "status (try_catch_finally p s r c) = (if suspends c then InFlight else Settled)"
  by (cases c) (simp add: try_catch_finally_def suspends_def split: ending.splits)

lemma tcf_settled:
  "status (try_catch_finally p s r c) = Settled \<Longrightarrow>
   \<not> loading (session_after (try_catch_finally p s r c))
   \<and> last (effects (try_catch_finally p s r c)) = SetLoading False"
  by (cases c) (simp add: try_catch_finally_def split: ending.splits)

lemma tcf_inflight:
  "status (try_catch_finally p s r c) = InFlight \<Longrightarrow>
   loading (session_after (try_catch_finally p s r c))"
  by (cases c) (simp add: try_catch_finally_def split: ending.splits)

lemma tcf_first: "\<exists>es. effects (try_catch_finally p s r c) = SetLoading True # es"
  by (cases c) (simp add: try_catch_finally_def split: ending.splits)

lemma tcf_Done:
  "effects (try_catch_finally p s r (es, Done u)) = [SetLoading True] @ es @ [SetLoading False]"
  by (simp add: try_catch_finally_def)

lemma tcf_Raised:
  "effects (try_catch_finally p s r (es, Raised t)) =
     [SetLoading True] @ es @ [Alert (p @ errorMessage t), SetLoading False]"
  by (simp add: try_catch_finally_def)

lemma tcf_loading:
  "effects (try_catch_finally p (s\<lparr> loading := b \<rparr>) r c) = effects (try_catch_finally p s r c)
   \<and> status (try_catch_finally p (s\<lparr> loading := b \<rparr>) r c) = status (try_catch_finally p s r c)
   \<and> refs_after (try_catch_finally p (s\<lparr> loading := b \<rparr>) r c)
       = refs_after (try_catch_finally p s r c)"
  by (cases c) (simp add: try_catch_finally_def split: ending.splits)

subsection \<open>The handlers with a file present\<close>

lemma handleTrim_unfold:
  "currentFile s = Some f \<Longrightarrow>
   handleTrim L env r s =
     try_catch_finally ''Error trimming video: '' s (fst (loadFFmpeg L env r))
       (then_do (snd (loadFFmpeg L env r)) (\<lambda>_. trim_steps env s f))"
  by (simp add: handleTrim_def split: prod.splits)

lemma handleShare_unfold:
  "currentFile s = Some f \<Longrightarrow>
   handleShare L env r s =
     try_catch_finally ''Error: '' s (fst (loadFFmpeg L env r))
       (then_do (snd (loadFFmpeg L env r)) (\<lambda>_. share_steps env s f))"
  by (simp add: handleShare_def split: prod.splits)

lemma exec_args_loading [simp]: "exec_args (s\<lparr> loading := b \<rparr>) = exec_args s"
  by (simp add: exec_args_def startTimeInSeconds_def endTimeInSeconds_def duration_def)

lemma trim_steps_loading [simp]: "trim_steps env (s\<lparr> loading := b \<rparr>) f = trim_steps env s f"
  by (simp add: trim_steps_def)

lemma share_steps_loading [simp]: "share_steps env (s\<lparr> loading := b \<rparr>) f = share_steps env s f"
  by (simp add: share_steps_def)

lemma share_steps_produced:
  assumes "fetchFile env = Resolves input"
    and "ffmpeg_writeFile env = Resolves ()"
    and "ffmpeg_exec env = Resolves c"
    and "ffmpeg_readFile env = Resolves data"
    and "data \<noteq> []"
  shows "share_steps env s f =
     ([FetchFile f, EngineWriteFile ''input.mp4'' input, EngineExec (exec_args s),
       EngineReadFile ''output.mp4''] @ fst (share_or_save env f data),
      snd (share_or_save env f data))"
  using assms
  by (simp add: share_steps_def await_def skip_def then_do_Done)

lemma share_or_save_unsupported:
  assumes "\<not> navigator_share env \<or> navigator_canShare env = Returns False"
  shows "share_or_save env f data =
     ([Alert ''Share not supported. Video will download instead.'', CreateObjectURL data,
       AppendAnchor (createObjectURL env) (''trimmed-'' @ file_name f), AnchorClick] @
      (case anchor_click env of
         Returns _ \<Rightarrow> [SetTimeout (RemoveAnchorAndRevoke (createObjectURL env)) 100]
       | Throws t \<Rightarrow> []),
      (case anchor_click env of Returns _ \<Rightarrow> Done () | Throws t \<Rightarrow> Raised t))"
  using assms
  by (cases "anchor_click env")
     (auto simp: share_or_save_def Let_def then_do_Done then_do_Raised perform_def invoke_def)

lemma share_or_save_rejected:
  assumes "navigator_share env" and "navigator_canShare env = Returns True"
    and "share_result env = Rejects t"
  shows "share_or_save env f data =
     ([NavigatorShare \<lparr> file_name = ''trimmed-'' @ file_name f, file_type = ''video/mp4'',
         file_content = data \<rparr>], Raised t)"
  using assms by (simp add: share_or_save_def Let_def then_do_Done await_def)

lemma trim_steps_nonzero_exit:
  assumes "fetchFile env = Resolves input"
    and "ffmpeg_writeFile env = Resolves ()"
    and "ffmpeg_exec env = Resolves c"
    and "c \<noteq> 0"
  shows "trim_steps env s f =
     ([FetchFile f, EngineWriteFile ''input.mp4'' input, EngineExec (exec_args s)],
      Raised (JsError (''FFmpeg failed with exit code '' @ show_int c)))"
  using assms
  by (simp add: trim_steps_def await_def throw_def then_do_Done then_do_Raised)

lemma trim_steps_empty_output:
  assumes "fetchFile env = Resolves input"
    and "ffmpeg_writeFile env = Resolves ()"
    and "ffmpeg_exec env = Resolves 0"
    and "ffmpeg_listDir env = Resolves ()"
    and "ffmpeg_readFile env = Resolves []"
  shows "trim_steps env s f =
     ([FetchFile f, EngineWriteFile ''input.mp4'' input, EngineExec (exec_args s),
       EngineListDir ''/'', EngineReadFile ''output.mp4''],
      Raised (JsError ''Output file is empty''))"
  using assms
  by (simp add: trim_steps_def await_def throw_def skip_def then_do_Done then_do_Raised)

lemma share_steps_empty_output:
  assumes "fetchFile env = Resolves input"
    and "ffmpeg_writeFile env = Resolves ()"
    and "ffmpeg_exec env = Resolves c"
    and "ffmpeg_readFile env = Resolves []"
  shows "share_steps env s f =
     ([FetchFile f, EngineWriteFile ''input.mp4'' input, EngineExec (exec_args s),
       EngineReadFile ''output.mp4''],
      Raised (JsError ''Output file is empty''))"
  using assms
  by (simp add: share_steps_def await_def throw_def then_do_Done then_do_Raised)

text \<open>
  In download mode a non-zero exit code ends the run with an alert and no delivery: nothing
  is read back, no anchor is made or clicked.
\<close>

lemma handleTrim_nonzero_exit_fails:
  assumes "currentFile s = Some f"
    and "snd (snd (loadFFmpeg L env r)) = Done ()"
    and "fetchFile env = Resolves input"
    and "ffmpeg_writeFile env = Resolves ()"
    and "ffmpeg_exec env = Resolves c"
    and "c \<noteq> 0"
  shows "effects (handleTrim L env r s) =
     [SetLoading True] @ fst (snd (loadFFmpeg L env r)) @
     [FetchFile f, EngineWriteFile ''input.mp4'' input, EngineExec (exec_args s),
      Alert (''Error trimming video: FFmpeg failed with exit code '' @ show_int c),
      SetLoading False]"
  unfolding handleTrim_unfold [OF assms(1)]
  by (subst loaded_pair [OF assms(2)])
     (simp add: then_do_Done trim_steps_nonzero_exit [OF assms(3-6)] tcf_Raised)

text \<open>In both modes an empty output buffer after exit code 0 ends the run with an alert.\<close>

lemma empty_output_fails:
  assumes "currentFile s = Some f"
    and "snd (snd (loadFFmpeg L env r)) = Done ()"
    and "fetchFile env = Resolves input"
    and "ffmpeg_writeFile env = Resolves ()"
    and "ffmpeg_exec env = Resolves 0"
    and "ffmpeg_listDir env = Resolves ()"
    and "ffmpeg_readFile env = Resolves []"
  shows "effects (handleTrim L env r s) =
     [SetLoading True] @ fst (snd (loadFFmpeg L env r)) @
     [FetchFile f, EngineWriteFile ''input.mp4'' input, EngineExec (exec_args s),
      EngineListDir ''/'', EngineReadFile ''output.mp4'',
      Alert ''Error trimming video: Output file is empty'', SetLoading False]"
    and "effects (handleShare L env r s) =
     [SetLoading True] @ fst (snd (loadFFmpeg L env r)) @
     [FetchFile f, EngineWriteFile ''input.mp4'' input, EngineExec (exec_args s),
      EngineReadFile ''output.mp4'',
      Alert ''Error: Output file is empty'', SetLoading False]"
proof -
  show "effects (handleTrim L env r s) =
     [SetLoading True] @ fst (snd (loadFFmpeg L env r)) @
     [FetchFile f, EngineWriteFile ''input.mp4'' input, EngineExec (exec_args s),
      EngineListDir ''/'', EngineReadFile ''output.mp4'',
      Alert ''Error trimming video: Output file is empty'', SetLoading False]"
    unfolding handleTrim_unfold [OF assms(1)]
    by (subst loaded_pair [OF assms(2)])
       (simp add: then_do_Done trim_steps_empty_output [OF assms(3-7)] tcf_Raised)
  show "effects (handleShare L env r s) =
     [SetLoading True] @ fst (snd (loadFFmpeg L env r)) @
     [FetchFile f, EngineWriteFile ''input.mp4'' input, EngineExec (exec_args s),
      EngineReadFile ''output.mp4'',
      Alert ''Error: Output file is empty'', SetLoading False]"
    unfolding handleShare_unfold [OF assms(1)]
    by (subst loaded_pair [OF assms(2)])
       (simp add: then_do_Done share_steps_empty_output [OF assms(3-5) assms(7)] tcf_Raised)
qed

text \<open>
  The second listing fetches the runtime from paths under \<^verbatim>\<open>/ffmpeg/\<close> of the page's own
  origin, and makes one attempt: at most two fetches and one load.
\<close>

lemma listing2_loads_same_origin:
  "ToBlobURL url mime \<in> set (fst (snd (loadFFmpeg Listing2 env r))) \<Longrightarrow>
   startsWith url ''/ffmpeg/'' \<and> \<not> startsWith url ''//''"
  by (auto simp: loadFFmpeg_def Let_def then_do_def perform_def await_def skip_def startsWith_def
      split: if_splits outcome.splits prod.splits)

lemma listing1_loads_cdn:
  "ToBlobURL url mime \<in> set (fst (snd (loadFFmpeg Listing1 env r))) \<Longrightarrow>
   startsWith url ''https://cdn.jsdelivr.net/''"
  by (auto simp: loadFFmpeg_def Let_def then_do_def perform_def await_def skip_def startsWith_def
      split: if_splits outcome.splits prod.splits)

lemma loadFFmpeg_one_attempt:
  "length (filter (\<lambda>e. case e of ToBlobURL _ _ \<Rightarrow> True | _ \<Rightarrow> False)
     (fst (snd (loadFFmpeg L env r)))) \<le> 2
   \<and> length (filter (\<lambda>e. case e of EngineLoad _ _ \<Rightarrow> True | _ \<Rightarrow> False)
     (fst (snd (loadFFmpeg L env r)))) \<le> 1"
  by (auto simp: loadFFmpeg_def Let_def then_do_def perform_def await_def skip_def
      split: if_splits outcome.splits prod.splits)

section \<open>The claims\<close>

text \<open>
  Below, a handler call sees the state the previous call left: React renders between two
  events, so the closure of the next handler holds the updated cells.
\<close>

subsection \<open>C1: the setters and the invariant of the bounds\<close>

text \<open>
  Claim C1, amended. The setters do not clamp: \<^verbatim>\<open>handleStartTimeChange\<close> stores any input
  below \<open>endTime\<close> as it is, and \<^verbatim>\<open>handleEndTimeChange\<close> stores any input above
  \<open>startTime\<close> as it is, whatever its range. In every sequence of setter calls whose inputs
  have magnitude at most \<open>2 ^ 52\<close>, run from any state whose two bounds have magnitude at
  most \<open>2 ^ 52\<close>, \<open>startTime < endTime\<close> holds after every call (the sequence \<open>cs\<close> is
  arbitrary, so this covers every prefix of a longer sequence). The whole invariant
  \<open>0 \<le> startTime < endTime \<le> 100\<close> is kept by a call of the start setter with an input of
  at least 0 in a state with \<open>endTime \<ge> 1\<close>, and by a call of the end setter with an input
  of at most 100 in a state with \<open>startTime \<le> 99\<close>.
\<close>

theorem setters_keep_order_not_range:
  "(\<bar>startTime s\<bar> \<le> 2 ^ 52 \<and> \<bar>endTime s\<bar> \<le> 2 ^ 52
      \<and> (\<forall>c \<in> set cs. \<bar>setter_input c\<bar> \<le> 2 ^ 52)
      \<and> (cs \<noteq> [] \<or> startTime s < endTime s) \<longrightarrow>
      startTime (call_setters r cs s) < endTime (call_setters r cs s))
   \<and> (v < endTime s \<longrightarrow> startTime (snd (handleStartTimeChange r v s)) = v)
   \<and> (startTime s < w \<longrightarrow> endTime (snd (handleEndTimeChange r w s)) = w)
   \<and> (bounds_ok s \<and> 0 \<le> v \<and> 1 \<le> endTime s \<longrightarrow>
        bounds_ok (snd (handleStartTimeChange r v s)))
   \<and> (bounds_ok s \<and> w \<le> 100 \<and> startTime s \<le> 99 \<longrightarrow>
        bounds_ok (snd (handleEndTimeChange r w s)))"
proof (intro conjI impI)
  assume h: "\<bar>startTime s\<bar> \<le> 2 ^ 52 \<and> \<bar>endTime s\<bar> \<le> 2 ^ 52
      \<and> (\<forall>c \<in> set cs. \<bar>setter_input c\<bar> \<le> 2 ^ 52)
      \<and> (cs \<noteq> [] \<or> startTime s < endTime s)"
  then have "in_unit_range s" by (simp add: magnitude_in_unit_range)
  with h show "startTime (call_setters r cs s) < endTime (call_setters r cs s)"
    by (intro call_setters_order) simp_all
next
  assume "v < endTime s"
  then show "startTime (snd (handleStartTimeChange r v s)) = v"
    by (simp add: handleStartTimeChange_def)
next
  assume "startTime s < w"
  then show "endTime (snd (handleEndTimeChange r w s)) = w"
    by (simp add: handleEndTimeChange_def)
next
  assume "bounds_ok s \<and> 0 \<le> v \<and> 1 \<le> endTime s"
  then show "bounds_ok (snd (handleStartTimeChange r v s))"
    by (simp add: bounds_ok_start)
next
  assume "bounds_ok s \<and> w \<le> 100 \<and> startTime s \<le> 99"
  then show "bounds_ok (snd (handleEndTimeChange r w s))"
    by (simp add: bounds_ok_end)
qed

text \<open>The amended claim at the initial session: an out-of-range sequence, and the inputs 20
  and 60.\<close>

theorem setters_keep_order_not_range_witness:
  "\<bar>startTime initial_session\<bar> \<le> 2 ^ 52 \<and> \<bar>endTime initial_session\<bar> \<le> 2 ^ 52
   \<and> \<bar>setter_input (SetStart 150)\<bar> \<le> 2 ^ 52 \<and> \<bar>setter_input (SetEnd (-3))\<bar> \<le> 2 ^ 52
   \<and> [SetStart 150, SetEnd (-3)] \<noteq> []
   \<and> startTime (call_setters mounted [SetStart 150, SetEnd (-3)] initial_session)
       < endTime (call_setters mounted [SetStart 150, SetEnd (-3)] initial_session)
   \<and> 20 < endTime initial_session
   \<and> startTime (snd (handleStartTimeChange mounted 20 initial_session)) = 20
   \<and> startTime initial_session < 60
   \<and> endTime (snd (handleEndTimeChange mounted 60 initial_session)) = 60
   \<and> bounds_ok initial_session \<and> (0::real) \<le> 20 \<and> 1 \<le> endTime initial_session
   \<and> bounds_ok (snd (handleStartTimeChange mounted 20 initial_session))
   \<and> (60::real) \<le> 100 \<and> startTime initial_session \<le> 99
   \<and> bounds_ok (snd (handleEndTimeChange mounted 60 initial_session))"
  using setters_keep_order_not_range
    [where cs = "[SetStart 150, SetEnd (-3)]" and s = initial_session and r = mounted
       and v = 20 and w = 60]
  by (simp add: initial_session_def bounds_ok_def)

text \<open>
  Claim C1 as stated fails: from the initial session, which satisfies the invariant, the
  start setter stores the input -5 and the end setter stores the input 250; neither is
  clamped into [0,100], and the invariant no longer holds.
\<close>

theorem setters_break_range_counterexample:
  "bounds_ok initial_session
   \<and> startTime (snd (handleStartTimeChange mounted (-5) initial_session)) = -5
   \<and> \<not> bounds_ok (snd (handleStartTimeChange mounted (-5) initial_session))
   \<and> endTime (snd (handleEndTimeChange mounted 250 initial_session)) = 250
   \<and> \<not> bounds_ok (snd (handleEndTimeChange mounted 250 initial_session))"
  by (simp add: initial_session_def bounds_ok_def handleStartTimeChange_def
      handleEndTimeChange_def)

subsection \<open>C9: what the setters store\<close>




subsection \<open>C2: a second invocation while one is in flight\<close>

text \<open>
  Claim C2, amended. \<^verbatim>\<open>handleTrim\<close> and \<^verbatim>\<open>handleShare\<close> set the in-flight flag and never
  read it: a run from a state with \<open>loading\<close> true makes the same calls, ends in the same
  status and leaves the same refs as a run from the same state with \<open>loading\<close> false. With
  a file present, \<^verbatim>\<open>setLoading(true)\<close> is the first thing a run does, before any call on
  the engine.
\<close>

theorem flag_set_never_read:
  "effects (handleTrim L env r (s\<lparr> loading := b \<rparr>)) = effects (handleTrim L env r s)
   \<and> status (handleTrim L env r (s\<lparr> loading := b \<rparr>)) = status (handleTrim L env r s)
   \<and> refs_after (handleTrim L env r (s\<lparr> loading := b \<rparr>)) = refs_after (handleTrim L env r s)
   \<and> effects (handleShare L env r (s\<lparr> loading := b \<rparr>)) = effects (handleShare L env r s)
   \<and> status (handleShare L env r (s\<lparr> loading := b \<rparr>)) = status (handleShare L env r s)
   \<and> refs_after (handleShare L env r (s\<lparr> loading := b \<rparr>)) = refs_after (handleShare L env r s)
   \<and> (currentFile s \<noteq> None \<longrightarrow>
        (\<exists>es. effects (handleTrim L env r s) = SetLoading True # es)
        \<and> (\<exists>es. effects (handleShare L env r s) = SetLoading True # es))"
proof (cases "currentFile s")
  case None
  then show ?thesis by (simp add: handleTrim_def handleShare_def)
next
  case (Some f)
  then have f': "currentFile (s\<lparr> loading := b \<rparr>) = Some f" by simp
  show ?thesis
    unfolding handleTrim_unfold [OF Some] handleShare_unfold [OF Some]
      handleTrim_unfold [OF f'] handleShare_unfold [OF f']
    by (simp add: tcf_loading tcf_first)
qed

text \<open>The amended claim at a session that holds a file.\<close>

theorem flag_set_never_read_witness:
  "currentFile editing \<noteq> None
   \<and> effects (handleTrim Listing2 all_fine mounted (editing\<lparr> loading := True \<rparr>))
       = effects (handleTrim Listing2 all_fine mounted editing)
   \<and> (\<exists>es. effects (handleTrim Listing2 all_fine mounted editing) = SetLoading True # es)
   \<and> (\<exists>es. effects (handleShare Listing2 all_fine mounted editing) = SetLoading True # es)"
  using flag_set_never_read
    [where L = Listing2 and env = all_fine and r = mounted and s = editing and b = True]
  by (simp add: editing_def)

text \<open>
  Claim C2 as stated fails. A first \<^verbatim>\<open>handleTrim\<close> whose engine command has not returned is
  in flight and has set \<open>loading\<close>. A second \<^verbatim>\<open>handleTrim\<close>, run on the session and refs
  the first one left, is not rejected: it writes the input, runs the command, lists and
  reads on the cached engine.
\<close>

theorem second_call_in_flight_counterexample:
  "status (handleTrim Listing2 exec_hangs mounted editing) = InFlight
   \<and> loading (session_after (handleTrim Listing2 exec_hangs mounted editing))
   \<and> filter is_engine_call
        (effects (handleTrim Listing2 all_fine
           (refs_after (handleTrim Listing2 exec_hangs mounted editing))
           (session_after (handleTrim Listing2 exec_hangs mounted editing))))
      = [EngineWriteFile ''input.mp4'' [1, 2, 3],
         EngineExec [Lit ''-ss'', NumToString 30, Lit ''-i'', Lit ''input.mp4'', Lit ''-t'',
           NumToString 60, Lit ''-c'', Lit ''copy'', Lit ''-avoid_negative_ts'',
           Lit ''make_zero'', Lit ''output.mp4''],
         EngineListDir ''/'', EngineReadFile ''output.mp4'']"
  by (simp add: run_defs sample_defs is_engine_call_def)

subsection \<open>C3: exit code and empty output\<close>

text \<open>
  Claim C3 fails in share mode. \<^verbatim>\<open>handleShare\<close> drops the value of \<^verbatim>\<open>ffmpeg.exec\<close>
  (line 283): when the command exits with 1 and \<^verbatim>\<open>output.mp4\<close> reads back as non-empty
  bytes, the run shares those bytes and raises no alert. \<^verbatim>\<open>handleTrim\<close> checks the exit
  code (lines 165-167), and both handlers reject an empty buffer: see
  \<open>handleTrim_nonzero_exit_fails\<close> and \<open>empty_output_fails\<close>.
\<close>

theorem share_ignores_exit_code:
  "effects (handleShare Listing2 exec_fails mounted editing) =
     [SetLoading True, EngineNew, EngineOn ''log'', EngineOn ''progress'',
      ToBlobURL ''/ffmpeg/ffmpeg-core.js'' ''text/javascript'',
      ToBlobURL ''/ffmpeg/ffmpeg-core.wasm'' ''application/wasm'',
      EngineLoad ''blob:core'' ''blob:wasm'', FetchFile clip,
      EngineWriteFile ''input.mp4'' [1, 2, 3],
      EngineExec [Lit ''-ss'', NumToString 30, Lit ''-i'', Lit ''input.mp4'', Lit ''-t'',
        NumToString 60, Lit ''-c'', Lit ''copy'', Lit ''-avoid_negative_ts'',
        Lit ''make_zero'', Lit ''output.mp4''],
      EngineReadFile ''output.mp4'',
      NavigatorShare \<lparr> file_name = ''trimmed-clip.mp4'', file_type = ''video/mp4'',
        file_content = [7, 8] \<rparr>,
      SetLoading False]"
  by (simp add: run_defs sample_defs)

text \<open>The same collaborators in download mode: the run ends with the alert.\<close>

lemma trim_checks_exit_code_example:
  "effects (handleTrim Listing2 exec_fails mounted editing) =
     [SetLoading True, EngineNew, EngineOn ''log'', EngineOn ''progress'',
      ToBlobURL ''/ffmpeg/ffmpeg-core.js'' ''text/javascript'',
      ToBlobURL ''/ffmpeg/ffmpeg-core.wasm'' ''application/wasm'',
      EngineLoad ''blob:core'' ''blob:wasm'', FetchFile clip,
      EngineWriteFile ''input.mp4'' [1, 2, 3],
      EngineExec [Lit ''-ss'', NumToString 30, Lit ''-i'', Lit ''input.mp4'', Lit ''-t'',
        NumToString 60, Lit ''-c'', Lit ''copy'', Lit ''-avoid_negative_ts'',
        Lit ''make_zero'', Lit ''output.mp4''],
      Alert ''Error trimming video: FFmpeg failed with exit code 1'',
      SetLoading False]"
  by (simp add: run_defs sample_defs show_int_def)

subsection \<open>C4: the in-flight flag is reset on every exit\<close>

text \<open>
  Claim C4. A run of \<^verbatim>\<open>handleTrim\<close> or \<^verbatim>\<open>handleShare\<close> with a file present starts by
  setting \<open>loading\<close>. Whatever the collaborators answer (success, a runtime that fails to
  load, a failed command, any thrown value), a run that settles ends with
  \<^verbatim>\<open>setLoading(false)\<close> as its last step and leaves \<open>loading\<close> false; and a run settles
  whenever every awaited promise settles.
\<close>

theorem loading_reset_on_every_exit:
  assumes "currentFile s \<noteq> None"
  shows "(\<exists>es. effects (handleTrim L env r s) = SetLoading True # es)
    \<and> (responsive env \<longrightarrow> status (handleTrim L env r s) = Settled)
    \<and> (status (handleTrim L env r s) = Settled \<longrightarrow>
          \<not> loading (session_after (handleTrim L env r s))
          \<and> last (effects (handleTrim L env r s)) = SetLoading False)
    \<and> (\<exists>es. effects (handleShare L env r s) = SetLoading True # es)
    \<and> (responsive env \<longrightarrow> status (handleShare L env r s) = Settled)
    \<and> (status (handleShare L env r s) = Settled \<longrightarrow>
          \<not> loading (session_after (handleShare L env r s))
          \<and> last (effects (handleShare L env r s)) = SetLoading False)"
proof -
  from assms obtain f where f: "currentFile s = Some f" by auto
  note t = handleTrim_unfold [OF f, of L env r]
  note h = handleShare_unfold [OF f, of L env r]
  have t1: "\<exists>es. effects (handleTrim L env r s) = SetLoading True # es"
    unfolding t by (rule tcf_first)
  have t2: "responsive env \<longrightarrow> status (handleTrim L env r s) = Settled"
    unfolding t by (simp add: tcf_status suspends_then_do loadFFmpeg_settles trim_steps_settles)
  have t3: "status (handleTrim L env r s) = Settled \<longrightarrow>
          \<not> loading (session_after (handleTrim L env r s))
          \<and> last (effects (handleTrim L env r s)) = SetLoading False"
    unfolding t using tcf_settled by blast
  have h1: "\<exists>es. effects (handleShare L env r s) = SetLoading True # es"
    unfolding h by (rule tcf_first)
  have h2: "responsive env \<longrightarrow> status (handleShare L env r s) = Settled"
    unfolding h by (simp add: tcf_status suspends_then_do loadFFmpeg_settles share_steps_settles)
  have h3: "status (handleShare L env r s) = Settled \<longrightarrow>
          \<not> loading (session_after (handleShare L env r s))
          \<and> last (effects (handleShare L env r s)) = SetLoading False"
    unfolding h using tcf_settled by blast
  from t1 t2 t3 h1 h2 h3 show ?thesis by blast
qed

text \<open>The claim on a successful trim, a trim whose runtime fails to load, and a share whose
  command exits with 1.\<close>

theorem loading_reset_on_every_exit_witness:
  "currentFile editing \<noteq> None \<and> responsive all_fine \<and> responsive load_fails
   \<and> responsive exec_fails
   \<and> status (handleTrim Listing2 all_fine mounted editing) = Settled
   \<and> \<not> loading (session_after (handleTrim Listing2 all_fine mounted editing))
   \<and> last (effects (handleTrim Listing2 all_fine mounted editing)) = SetLoading False
   \<and> status (handleTrim Listing2 load_fails mounted editing) = Settled
   \<and> \<not> loading (session_after (handleTrim Listing2 load_fails mounted editing))
   \<and> last (effects (handleTrim Listing2 load_fails mounted editing)) = SetLoading False
   \<and> status (handleShare Listing2 exec_fails mounted editing) = Settled
   \<and> \<not> loading (session_after (handleShare Listing2 exec_fails mounted editing))
   \<and> last (effects (handleShare Listing2 exec_fails mounted editing)) = SetLoading False"
  using loading_reset_on_every_exit
      [where s = editing and L = Listing2 and env = all_fine and r = mounted]
    loading_reset_on_every_exit
      [where s = editing and L = Listing2 and env = load_fails and r = mounted]
    loading_reset_on_every_exit
      [where s = editing and L = Listing2 and env = exec_fails and r = mounted]
  by (simp add: editing_def responsive_def all_fine_def load_fails_def exec_fails_def)

subsection \<open>C5: the bounds after a new file's metadata\<close>

text \<open>
  Claim C5, amended. After \<^verbatim>\<open>handleFileChange\<close> accepts a video file and the mounted video
  element then fires \<^verbatim>\<open>handleLoadedMetadata\<close>, \<open>endTime\<close> is 100, the duration is the
  element's, the trim controls and the actions are shown, and the file and its preview
  address are stored; \<open>startTime\<close> keeps the value it had before the file was selected.
\<close>

theorem metadata_resets_end_only:
  assumes "startsWith (file_type f) ''video/''" and "videoRef r = Some d"
  shows "handleLoadedMetadata r (snd (handleFileChange (Some f) url s)) =
     s\<lparr> currentFile := Some f, currentUrl := Some url, showActions := True,
        videoDuration := d, showTrimControls := True, endTime := 100 \<rparr>
   \<and> endTime (handleLoadedMetadata r (snd (handleFileChange (Some f) url s))) = 100
   \<and> startTime (handleLoadedMetadata r (snd (handleFileChange (Some f) url s))) = startTime s"
  using assms by (simp add: handleLoadedMetadata_def handleFileChange_def)

text \<open>The amended claim at a session trimmed to 30..60 that receives a new file.\<close>

theorem metadata_resets_end_only_witness:
  "startsWith (file_type clip) ''video/'' \<and> videoRef mounted = Some 120
   \<and> endTime (handleLoadedMetadata mounted
        (snd (handleFileChange (Some clip) ''blob:new'' trimmed))) = 100
   \<and> startTime (handleLoadedMetadata mounted
        (snd (handleFileChange (Some clip) ''blob:new'' trimmed))) = startTime trimmed"
  using metadata_resets_end_only
    [where f = clip and r = mounted and d = 120 and url = "''blob:new''" and s = trimmed]
  by (simp add: startsWith_def clip_def mounted_def)

text \<open>
  Claim C5 as stated fails: in a session trimmed to 30..60, selecting a new video file and
  loading its metadata leaves \<open>startTime\<close> at 30, not 0.
\<close>

theorem metadata_keeps_start_counterexample:
  "startTime (handleLoadedMetadata mounted
     (snd (handleFileChange (Some clip) ''blob:new'' trimmed))) = 30
   \<and> startTime (handleLoadedMetadata mounted
     (snd (handleFileChange (Some clip) ''blob:new'' trimmed))) \<noteq> 0
   \<and> endTime (handleLoadedMetadata mounted
     (snd (handleFileChange (Some clip) ''blob:new'' trimmed))) = 100"
  by (simp add: handleLoadedMetadata_def handleFileChange_def startsWith_def trimmed_def
      initial_session_def clip_def mounted_def)

subsection \<open>C6: share falls back to save\<close>

text \<open>
  Claim C6, amended. Take a run of \<^verbatim>\<open>handleShare\<close> that produces a valid artifact: the
  engine is loaded, the input is written, the command returns and the output reads back as
  non-empty bytes. If the host cannot share the file (\<^verbatim>\<open>navigator.share\<close> is missing or
  \<^verbatim>\<open>canShare\<close> returns false), the run announces the fallback and triggers a client-side
  save of the artifact under the name \<^verbatim>\<open>trimmed-\<close> followed by the file's name. If the host
  can share and the share is rejected, the run makes no save: it surfaces the rejection in
  an alert and ends.
\<close>

theorem share_saves_when_unsupported:
  assumes "currentFile s = Some f"
    and "snd (snd (loadFFmpeg L env r)) = Done ()"
    and "fetchFile env = Resolves input"
    and "ffmpeg_writeFile env = Resolves ()"
    and "ffmpeg_exec env = Resolves c"
    and "ffmpeg_readFile env = Resolves data"
    and "data \<noteq> []"
  shows "(\<not> navigator_share env \<or> navigator_canShare env = Returns False \<longrightarrow>
            effects (handleShare L env r s) =
              [SetLoading True] @ fst (snd (loadFFmpeg L env r)) @
              [FetchFile f, EngineWriteFile ''input.mp4'' input, EngineExec (exec_args s),
               EngineReadFile ''output.mp4'',
               Alert ''Share not supported. Video will download instead.'',
               CreateObjectURL data,
               AppendAnchor (createObjectURL env) (''trimmed-'' @ file_name f), AnchorClick] @
              (case anchor_click env of
                 Returns _ \<Rightarrow> [SetTimeout (RemoveAnchorAndRevoke (createObjectURL env)) 100]
               | Throws t \<Rightarrow> [Alert (''Error: '' @ errorMessage t)]) @
              [SetLoading False])
      \<and> (navigator_share env \<and> navigator_canShare env = Returns True
           \<and> share_result env = Rejects t \<longrightarrow>
            effects (handleShare L env r s) =
              [SetLoading True] @ fst (snd (loadFFmpeg L env r)) @
              [FetchFile f, EngineWriteFile ''input.mp4'' input, EngineExec (exec_args s),
               EngineReadFile ''output.mp4'',
               NavigatorShare \<lparr> file_name = ''trimmed-'' @ file_name f,
                 file_type = ''video/mp4'', file_content = data \<rparr>,
               Alert (''Error: '' @ errorMessage t), SetLoading False])"
proof (intro conjI impI)
  note steps = share_steps_produced [OF assms(3-7), of s f]
  note run = handleShare_unfold [OF assms(1), of L env r]
  note ld = loaded_pair [OF assms(2)]
  assume u: "\<not> navigator_share env \<or> navigator_canShare env = Returns False"
  have body: "then_do (snd (loadFFmpeg L env r)) (\<lambda>_. share_steps env s f) =
      (fst (snd (loadFFmpeg L env r)) @
       [FetchFile f, EngineWriteFile ''input.mp4'' input, EngineExec (exec_args s),
        EngineReadFile ''output.mp4''] @ fst (share_or_save env f data),
       snd (share_or_save env f data))"
    by (subst ld) (simp add: then_do_Done steps)
  show "effects (handleShare L env r s) =
      [SetLoading True] @ fst (snd (loadFFmpeg L env r)) @
      [FetchFile f, EngineWriteFile ''input.mp4'' input, EngineExec (exec_args s),
       EngineReadFile ''output.mp4'',
       Alert ''Share not supported. Video will download instead.'',
       CreateObjectURL data,
       AppendAnchor (createObjectURL env) (''trimmed-'' @ file_name f), AnchorClick] @
      (case anchor_click env of
         Returns _ \<Rightarrow> [SetTimeout (RemoveAnchorAndRevoke (createObjectURL env)) 100]
       | Throws t \<Rightarrow> [Alert (''Error: '' @ errorMessage t)]) @
      [SetLoading False]"
    unfolding run body share_or_save_unsupported [OF u]
    by (cases "anchor_click env") (simp_all add: tcf_Done tcf_Raised)
next
  note steps = share_steps_produced [OF assms(3-7), of s f]
  note run = handleShare_unfold [OF assms(1), of L env r]
  note ld = loaded_pair [OF assms(2)]
  assume "navigator_share env \<and> navigator_canShare env = Returns True
           \<and> share_result env = Rejects t"
  then have rej: "share_or_save env f data =
     ([NavigatorShare \<lparr> file_name = ''trimmed-'' @ file_name f, file_type = ''video/mp4'',
         file_content = data \<rparr>], Raised t)"
    by (simp add: share_or_save_rejected)
  have body: "then_do (snd (loadFFmpeg L env r)) (\<lambda>_. share_steps env s f) =
      (fst (snd (loadFFmpeg L env r)) @
       [FetchFile f, EngineWriteFile ''input.mp4'' input, EngineExec (exec_args s),
        EngineReadFile ''output.mp4''] @ fst (share_or_save env f data),
       snd (share_or_save env f data))"
    by (subst ld) (simp add: then_do_Done steps)
  show "effects (handleShare L env r s) =
      [SetLoading True] @ fst (snd (loadFFmpeg L env r)) @
      [FetchFile f, EngineWriteFile ''input.mp4'' input, EngineExec (exec_args s),
       EngineReadFile ''output.mp4'',
       NavigatorShare \<lparr> file_name = ''trimmed-'' @ file_name f,
         file_type = ''video/mp4'', file_content = data \<rparr>,
       Alert (''Error: '' @ errorMessage t), SetLoading False]"
    unfolding run body rej by (simp add: tcf_Raised)
qed

text \<open>The amended claim on a host without file sharing, and on a host that rejects the
  share.\<close>

theorem share_saves_when_unsupported_witness:
  "currentFile editing = Some clip
   \<and> snd (snd (loadFFmpeg Listing2 unsupported mounted)) = Done ()
   \<and> fetchFile unsupported = Resolves [1, 2, 3]
   \<and> ffmpeg_writeFile unsupported = Resolves ()
   \<and> ffmpeg_exec unsupported = Resolves 0
   \<and> ffmpeg_readFile unsupported = Resolves [7, 8]
   \<and> [7, 8 :: 8 word] \<noteq> []
   \<and> \<not> navigator_share unsupported
   \<and> effects (handleShare Listing2 unsupported mounted editing) =
       [SetLoading True, EngineNew, EngineOn ''log'', EngineOn ''progress'',
        ToBlobURL ''/ffmpeg/ffmpeg-core.js'' ''text/javascript'',
        ToBlobURL ''/ffmpeg/ffmpeg-core.wasm'' ''application/wasm'',
        EngineLoad ''blob:core'' ''blob:wasm'', FetchFile clip,
        EngineWriteFile ''input.mp4'' [1, 2, 3], EngineExec (exec_args editing),
        EngineReadFile ''output.mp4'',
        Alert ''Share not supported. Video will download instead.'',
        CreateObjectURL [7, 8], AppendAnchor ''blob:artifact'' ''trimmed-clip.mp4'',
        AnchorClick, SetTimeout (RemoveAnchorAndRevoke ''blob:artifact'') 100,
        SetLoading False]
   \<and> navigator_share share_rejected \<and> navigator_canShare share_rejected = Returns True
   \<and> share_result share_rejected = Rejects (JsError ''Share canceled'')
   \<and> last (butlast (effects (handleShare Listing2 share_rejected mounted editing)))
       = Alert ''Error: Share canceled''"
  using share_saves_when_unsupported
    [where s = editing and f = clip and L = Listing2 and env = unsupported and r = mounted
       and input = "[1, 2, 3]" and c = 0 and data = "[7, 8]"]
    share_saves_when_unsupported
    [where s = editing and f = clip and L = Listing2 and env = share_rejected and r = mounted
       and input = "[1, 2, 3]" and c = 0 and data = "[7, 8]"
       and t = "JsError ''Share canceled''"]
  by (simp add: sample_defs loadFFmpeg_def then_do_def perform_def await_def)

text \<open>
  Claim C6 as stated fails: with a valid artifact and a host that can share, a rejected
  share ends the run with an error alert; no anchor is clicked, so nothing is saved.
\<close>

theorem rejected_share_not_saved_counterexample:
  "effects (handleShare Listing2 share_rejected mounted editing) =
     [SetLoading True, EngineNew, EngineOn ''log'', EngineOn ''progress'',
      ToBlobURL ''/ffmpeg/ffmpeg-core.js'' ''text/javascript'',
      ToBlobURL ''/ffmpeg/ffmpeg-core.wasm'' ''application/wasm'',
      EngineLoad ''blob:core'' ''blob:wasm'', FetchFile clip,
      EngineWriteFile ''input.mp4'' [1, 2, 3],
      EngineExec [Lit ''-ss'', NumToString 30, Lit ''-i'', Lit ''input.mp4'', Lit ''-t'',
        NumToString 60, Lit ''-c'', Lit ''copy'', Lit ''-avoid_negative_ts'',
        Lit ''make_zero'', Lit ''output.mp4''],
      EngineReadFile ''output.mp4'',
      NavigatorShare \<lparr> file_name = ''trimmed-clip.mp4'', file_type = ''video/mp4'',
        file_content = [7, 8] \<rparr>,
      Alert ''Error: Share canceled'', SetLoading False]
   \<and> AnchorClick \<notin> set (effects (handleShare Listing2 share_rejected mounted editing))"
  by (simp add: run_defs sample_defs)

subsection \<open>C7: where the runtime is loaded from\<close>

text \<open>
  Claim C7, amended. \<^verbatim>\<open>loadFFmpeg\<close> makes a single attempt to load the engine's runtime,
  from the one base location its listing configures: at most two fetches and one load, and
  none at all when a handle is cached. In the second listing (lines 487-518) every fetch
  goes to a path under \<^verbatim>\<open>/ffmpeg/\<close> on the page's own origin, never to a third-party network
  location. In the first listing (lines 33-64) every fetch goes to the jsDelivr CDN.
\<close>

theorem runtime_loaded_per_listing:
  "(ToBlobURL url mime \<in> set (fst (snd (loadFFmpeg Listing2 env r))) \<longrightarrow>
      startsWith url ''/ffmpeg/'' \<and> \<not> startsWith url ''//'')
   \<and> (ToBlobURL url mime \<in> set (fst (snd (loadFFmpeg Listing1 env r))) \<longrightarrow>
      startsWith url ''https://cdn.jsdelivr.net/'')
   \<and> length (filter (\<lambda>e. case e of ToBlobURL _ _ \<Rightarrow> True | _ \<Rightarrow> False)
        (fst (snd (loadFFmpeg L env r)))) \<le> 2
   \<and> length (filter (\<lambda>e. case e of EngineLoad _ _ \<Rightarrow> True | _ \<Rightarrow> False)
        (fst (snd (loadFFmpeg L env r)))) \<le> 1
   \<and> (ffmpegRef r \<longrightarrow> fst (snd (loadFFmpeg L env r)) = [])"
proof (intro conjI impI)
  assume "ToBlobURL url mime \<in> set (fst (snd (loadFFmpeg Listing2 env r)))"
  then show "startsWith url ''/ffmpeg/''" and "\<not> startsWith url ''//''"
    using listing2_loads_same_origin by blast+
next
  assume "ToBlobURL url mime \<in> set (fst (snd (loadFFmpeg Listing1 env r)))"
  then show "startsWith url ''https://cdn.jsdelivr.net/''"
    by (rule listing1_loads_cdn)
next
  show "length (filter (\<lambda>e. case e of ToBlobURL _ _ \<Rightarrow> True | _ \<Rightarrow> False)
        (fst (snd (loadFFmpeg L env r)))) \<le> 2"
    using loadFFmpeg_one_attempt by blast
  show "length (filter (\<lambda>e. case e of EngineLoad _ _ \<Rightarrow> True | _ \<Rightarrow> False)
        (fst (snd (loadFFmpeg L env r)))) \<le> 1"
    using loadFFmpeg_one_attempt by blast
next
  assume "ffmpegRef r"
  then show "fst (snd (loadFFmpeg L env r)) = []"
    by (simp add: loadFFmpeg_def skip_def)
qed

text \<open>The amended claim on a first load in each listing, and with a cached handle.\<close>

theorem runtime_loaded_per_listing_witness:
  "ToBlobURL ''/ffmpeg/ffmpeg-core.wasm'' ''application/wasm''
      \<in> set (fst (snd (loadFFmpeg Listing2 all_fine mounted)))
   \<and> startsWith ''/ffmpeg/ffmpeg-core.wasm'' ''/ffmpeg/''
   \<and> ToBlobURL ''https://cdn.jsdelivr.net/npm/@ffmpeg/core@0.12.6/dist/esm/ffmpeg-core.wasm''
        ''application/wasm'' \<in> set (fst (snd (loadFFmpeg Listing1 all_fine mounted)))
   \<and> startsWith ''https://cdn.jsdelivr.net/npm/@ffmpeg/core@0.12.6/dist/esm/ffmpeg-core.wasm''
        ''https://cdn.jsdelivr.net/''
   \<and> ffmpegRef (mounted\<lparr> ffmpegRef := True \<rparr>)
   \<and> fst (snd (loadFFmpeg Listing2 all_fine (mounted\<lparr> ffmpegRef := True \<rparr>))) = []"
  using runtime_loaded_per_listing
      [where url = "''/ffmpeg/ffmpeg-core.wasm''" and mime = "''application/wasm''"
         and env = all_fine and r = mounted and L = Listing2]
    runtime_loaded_per_listing
      [where url = "''https://cdn.jsdelivr.net/npm/@ffmpeg/core@0.12.6/dist/esm/ffmpeg-core.wasm''"
         and mime = "''application/wasm''" and env = all_fine and r = mounted and L = Listing1]
    runtime_loaded_per_listing
      [where env = all_fine and r = "mounted\<lparr> ffmpegRef := True \<rparr>" and L = Listing2]
  by (simp add: run_defs sample_defs startsWith_def)

text \<open>
  Claim C7 as stated fails on the first listing: with no cached engine, \<^verbatim>\<open>loadFFmpeg\<close> of
  lines 33-64 fetches \<^verbatim>\<open>ffmpeg-core.js\<close> and \<^verbatim>\<open>ffmpeg-core.wasm\<close> from the jsDelivr CDN
  (line 49), a third-party network location.
\<close>

theorem listing1_loads_from_cdn:
  "fst (snd (loadFFmpeg Listing1 all_fine mounted)) =
     [EngineNew, EngineOn ''log'', EngineOn ''progress'',
      ToBlobURL ''https://cdn.jsdelivr.net/npm/@ffmpeg/core@0.12.6/dist/esm/ffmpeg-core.js''
        ''text/javascript'',
      ToBlobURL ''https://cdn.jsdelivr.net/npm/@ffmpeg/core@0.12.6/dist/esm/ffmpeg-core.wasm''
        ''application/wasm'',
      EngineLoad ''blob:core'' ''blob:wasm'']"
  by (simp add: run_defs sample_defs)

subsection \<open>C8: clear\<close>

text \<open>
  Claim C8, amended. After \<^verbatim>\<open>handleClear\<close>, from every state: the file and the preview
  address are null, the duration is 0, the bounds are 0 and 100, and both visibility flags
  are false; a truthy preview address is revoked before it is dropped. The in-flight flag
  \<open>loading\<close> is left as it was: the session is the initial one with \<open>loading\<close> unchanged,
  so it equals the initial session exactly when no trim or share is in flight.
\<close>

theorem clear_resets_session:
  "currentFile (snd (handleClear r s)) = None
   \<and> currentUrl (snd (handleClear r s)) = None
   \<and> videoDuration (snd (handleClear r s)) = 0
   \<and> startTime (snd (handleClear r s)) = 0
   \<and> endTime (snd (handleClear r s)) = 100
   \<and> \<not> showTrimControls (snd (handleClear r s))
   \<and> \<not> showActions (snd (handleClear r s))
   \<and> snd (handleClear r s) = initial_session\<lparr> loading := loading s \<rparr>
   \<and> (\<not> loading s \<longrightarrow> snd (handleClear r s) = initial_session)
   \<and> (truthy (currentUrl s) \<longrightarrow>
        RevokeObjectURL (the (currentUrl s)) \<in> set (fst (handleClear r s)))"
  by (simp add: handleClear_def initial_session_def)

text \<open>The amended claim at a session that holds a file and a preview address.\<close>

theorem clear_resets_session_witness:
  "truthy (currentUrl trimmed) \<and> \<not> loading trimmed
   \<and> snd (handleClear mounted trimmed) = initial_session
   \<and> RevokeObjectURL ''blob:old'' \<in> set (fst (handleClear mounted trimmed))"
  using clear_resets_session [where r = mounted and s = trimmed]
  by (simp add: trimmed_def initial_session_def)

text \<open>
  Claim C8 as stated fails. While a \<^verbatim>\<open>handleTrim\<close> is in flight (its engine command has not
  returned), \<open>loading\<close> is true; \<^verbatim>\<open>handleClear\<close> on that session leaves \<open>loading\<close> true, so
  the session after it is not the initial one.
\<close>

theorem clear_keeps_loading_counterexample:
  "status (handleTrim Listing2 exec_hangs mounted editing) = InFlight
   \<and> loading (snd (handleClear mounted
        (session_after (handleTrim Listing2 exec_hangs mounted editing))))
   \<and> snd (handleClear mounted (session_after (handleTrim Listing2 exec_hangs mounted editing)))
       \<noteq> initial_session"
  by (simp add: run_defs sample_defs handleClear_def initial_session_def)

subsection \<open>C10: no file, no operation\<close>

text \<open>
  Claim C10. With no file in the session, \<^verbatim>\<open>handleTrim\<close> and \<^verbatim>\<open>handleShare\<close> return at
  once: they make no call at all (no engine call, no alert, no \<^verbatim>\<open>setLoading\<close>), and leave
  the session and the refs as they were.
\<close>

theorem no_file_no_op:
  assumes "currentFile s = None"
  shows "handleTrim L env r s =
      \<lparr> effects = [], session_after = s, refs_after = r, status = Settled \<rparr>
    \<and> handleShare L env r s =
      \<lparr> effects = [], session_after = s, refs_after = r, status = Settled \<rparr>"
  using assms by (simp add: handleTrim_def handleShare_def)

text \<open>The claim at the initial session.\<close>

theorem no_file_no_op_witness:
  "currentFile initial_session = None
   \<and> handleTrim Listing2 all_fine mounted initial_session
       = \<lparr> effects = [], session_after = initial_session, refs_after = mounted,
           status = Settled \<rparr>
   \<and> handleShare Listing2 all_fine mounted initial_session
       = \<lparr> effects = [], session_after = initial_session, refs_after = mounted,
           status = Settled \<rparr>"
  using no_file_no_op [where s = initial_session and L = Listing2 and env = all_fine and r = mounted]
  by (simp add: initial_session_def)

end
